theory Spec2Isabelle
  imports Complex_Main
begin

section \<open>Python values\<close>

text \<open>
  A Python \<open>str\<close> is a sequence of Unicode code points; slicing and \<open>len\<close> count code
  points. A string is therefore a list of code points, and \<open>u\<close> turns an ASCII literal
  into one. Code points beyond ASCII in the literals of \<open>main.py\<close> are written as numbers
  (225, 227, 231, 233, 237 and 243 are U+00E1, U+00E3, U+00E7, U+00E9, U+00ED and U+00F3).
\<close>

type_synonym pystr = "nat list"

definition u :: "string \<Rightarrow> pystr" where
  "u s = map of_char s"

text \<open>
  A Python \<open>float\<close>: the finite doubles are real numbers, and the decoder of \<open>json\<close>
  also produces \<open>Infinity\<close>, \<open>-Infinity\<close> and \<open>NaN\<close>. Only comparisons are made on
  floats by \<open>main.py\<close>, and those are exact; a float literal of the source is written as
  the decimal it denotes.
\<close>

datatype pyfloat = Finite real | PosInf | NegInf | NaN

text \<open>What \<open>json.loads\<close> returns: \<open>None\<close>, \<open>bool\<close>, \<open>int\<close>, \<open>float\<close>, \<open>str\<close>, \<open>list\<close>, \<open>dict\<close>.\<close>

datatype json =
    JNull
  | JBool bool
  | JInt int
  | JFloat pyfloat
  | JStr pystr
  | JArr "json list"
  | JObj "(pystr \<times> json) list"

record http_exception =
  status_code :: nat
  detail :: pystr

text \<open>
  The exceptions that can travel through the \<open>try\<close> block of \<open>analisar_impugnacao\<close>.
  \<open>JSONDecodeError\<close> and \<open>OpenAIError\<close> carry their \<open>str(e)\<close>; \<open>OtherException\<close> is any
  further exception a collaborator may raise.
\<close>

datatype py_exception =
    HTTPException http_exception
  | JSONDecodeError pystr
  | OpenAIError pystr
  | TypeError
  | AttributeError
  | IndexError
  | ValidationError
  | OtherException pystr

text \<open>The \<open>\<lt>\<close> of two Python floats; every comparison with \<open>NaN\<close> is false.\<close>

fun float_lt :: "pyfloat \<Rightarrow> pyfloat \<Rightarrow> bool" where
  "float_lt NaN _ = False"
| "float_lt _ NaN = False"
| "float_lt (Finite x) (Finite y) = (x < y)"
| "float_lt (Finite _) PosInf = True"
| "float_lt (Finite _) NegInf = False"
| "float_lt PosInf _ = False"
| "float_lt NegInf (Finite _) = True"
| "float_lt NegInf PosInf = True"
| "float_lt NegInf NegInf = False"

text \<open>
  The numeric value of an \<open>int\<close>, \<open>bool\<close> or \<open>float\<close>; Python compares an \<open>int\<close> with a
  \<open>float\<close> exactly. Anything else does not order against a number.
\<close>

fun as_number :: "json \<Rightarrow> pyfloat option" where
  "as_number (JInt n) = Some (Finite (real_of_int n))"
| "as_number (JBool b) = Some (Finite (if b then 1 else 0))"
| "as_number (JFloat f) = Some f"
| "as_number _ = None"

text \<open>
  \<open>max(a, b)\<close> and \<open>min(a, b)\<close> for a number \<open>b\<close>, as at the four call sites: the result
  starts as \<open>a\<close> and becomes \<open>b\<close> when \<open>b > a\<close> (\<open>b < a\<close> for \<open>min\<close>); comparing a number
  with \<open>None\<close>, a \<open>str\<close>, a \<open>list\<close> or a \<open>dict\<close> raises \<open>TypeError\<close>.
\<close>

definition py_max :: "json \<Rightarrow> json \<Rightarrow> py_exception + json" where
  "py_max a b =
     (case (as_number a, as_number b) of
        (Some x, Some y) \<Rightarrow> Inr (if float_lt x y then b else a)
      | _ \<Rightarrow> Inl TypeError)"

definition py_min :: "json \<Rightarrow> json \<Rightarrow> py_exception + json" where
  "py_min a b =
     (case (as_number a, as_number b) of
        (Some x, Some y) \<Rightarrow> Inr (if float_lt y x then b else a)
      | _ \<Rightarrow> Inl TypeError)"

text \<open>The expression \<open>min(max(v, lo), hi)\<close> of lines 186 and 197.\<close>

definition min_max :: "json \<Rightarrow> json \<Rightarrow> json \<Rightarrow> py_exception + json" where
  "min_max v lo hi = (case py_max v lo of Inl e \<Rightarrow> Inl e | Inr w \<Rightarrow> py_min w hi)"

text \<open>Truth value testing, as \<open>not x\<close> uses it.\<close>

fun truthy :: "json \<Rightarrow> bool" where
  "truthy JNull = False"
| "truthy (JBool b) = b"
| "truthy (JInt n) = (n \<noteq> 0)"
| "truthy (JFloat f) = (f \<noteq> Finite 0)"
| "truthy (JStr s) = (s \<noteq> [])"
| "truthy (JArr xs) = (xs \<noteq> [])"
| "truthy (JObj kvs) = (kvs \<noteq> [])"

text \<open>
  \<open>d.get(k, default)\<close>: the value under the key, the default when the key is absent
  (a key that maps to \<open>None\<close> is present); only a \<open>dict\<close> has the method.
\<close>

definition dict_get :: "(pystr \<times> json) list \<Rightarrow> pystr \<Rightarrow> json \<Rightarrow> json" where
  "dict_get kvs k dflt = (case map_of kvs k of None \<Rightarrow> dflt | Some v \<Rightarrow> v)"

definition py_get :: "json \<Rightarrow> pystr \<Rightarrow> json \<Rightarrow> py_exception + json" where
  "py_get d k dflt =
     (case d of
        JObj kvs \<Rightarrow> Inr (dict_get kvs k dflt)
      | _ \<Rightarrow> Inl AttributeError)"

text \<open>
  What a \<open>for\<close> loop iterates over: the elements of a \<open>list\<close>, the keys of a \<open>dict\<close>,
  the one-character strings of a \<open>str\<close>; the other values are not iterable.
\<close>

fun py_iter :: "json \<Rightarrow> py_exception + json list" where
  "py_iter (JArr xs) = Inr xs"
| "py_iter (JObj kvs) = Inr (map (\<lambda>kv. JStr (fst kv)) kvs)"
| "py_iter (JStr s) = Inr (map (\<lambda>c. JStr [c]) s)"
| "py_iter _ = Inl TypeError"

section \<open>The collaborators\<close>

text \<open>
  \<open>main.py\<close> does not pin its libraries, and the two major versions of pydantic differ on
  input that is not of the declared type.
\<close>

datatype pydantic_version = PydanticV1 | PydanticV2

text \<open>
  The behaviour of the libraries and of the built-ins that the source calls and does not
  define: the installed pydantic; \<open>str(v)\<close> of a number; \<open>json.loads\<close>; \<open>str(e)\<close> of an
  exception that does not carry its text above; the format \<open>:,.2f\<close>; and the text of
  \<open>PROMPT_SISTEMA\<close>, which no property below depends on.
\<close>

record lib =
  pydantic :: pydantic_version
  py_str :: "json \<Rightarrow> pystr"
  loads :: "pystr \<Rightarrow> py_exception + json"
  str_exc :: "py_exception \<Rightarrow> pystr"
  format_multa :: "pyfloat \<Rightarrow> pystr"
  PROMPT_SISTEMA :: pystr

section \<open>The pydantic models\<close>

record ProcessoInput =
  processo_id :: pystr
  texto_impugnacao :: pystr
  auto_infracao :: pystr
  contribuinte :: pystr
  valor_multa :: pyfloat

record Argumento =
  categoria :: pystr
  fundamento_legal :: pystr
  argumento :: pystr
  evidencias :: "pystr list"
  relevancia :: int
  pagina_referencia :: pystr

record ResultadoFinal =
  rf_processo_id :: pystr
  status :: pystr
  argumentos :: "Argumento list"
  resumo :: pystr
  confianca :: pyfloat
  alertas :: "pystr list"

text \<open>
  A field declared \<open>str\<close>: a \<open>str\<close> is taken as it is; pydantic 1 converts an \<open>int\<close>,
  \<open>float\<close> or \<open>bool\<close> with \<open>str(v)\<close> and pydantic 2 rejects it; \<open>None\<close>, a \<open>list\<close> and a
  \<open>dict\<close> are rejected by both.
\<close>

fun validate_str :: "lib \<Rightarrow> json \<Rightarrow> py_exception + pystr" where
  "validate_str L (JStr s) = Inr s"
| "validate_str L JNull = Inl ValidationError"
| "validate_str L (JArr xs) = Inl ValidationError"
| "validate_str L (JObj kvs) = Inl ValidationError"
| "validate_str L v =
     (case pydantic L of
        PydanticV1 \<Rightarrow> Inr (py_str L v)
      | PydanticV2 \<Rightarrow> Inl ValidationError)"

text \<open>
  Running a body over a sequence in order, as a \<open>for\<close> loop that appends each result
  does: the first exception ends it.
\<close>

fun for_each :: "('a \<Rightarrow> py_exception + 'b) \<Rightarrow> 'a list \<Rightarrow> py_exception + 'b list" where
  "for_each f [] = Inr []"
| "for_each f (x # xs) =
     (case f x of
        Inl e \<Rightarrow> Inl e
      | Inr y \<Rightarrow> (case for_each f xs of Inl e \<Rightarrow> Inl e | Inr ys \<Rightarrow> Inr (y # ys)))"

text \<open>A field declared \<open>List[str]\<close>: a \<open>list\<close> whose every element validates as \<open>str\<close>.\<close>

fun validate_list_str :: "lib \<Rightarrow> json \<Rightarrow> py_exception + pystr list" where
  "validate_list_str L (JArr xs) = for_each (validate_str L) xs"
| "validate_list_str L _ = Inl ValidationError"

text \<open>
  A field declared \<open>int\<close>: an \<open>int\<close> is taken as it is and a \<open>bool\<close> as 0 or 1. For a
  \<open>float\<close>, pydantic 1 calls \<open>int(v)\<close>, which truncates towards zero and raises on
  \<open>NaN\<close> and the infinities; pydantic 2 accepts a finite float with no fractional part
  (within 64 bits). After the clamp of \<open>relevancia\<close> only a float in [1,10] or \<open>NaN\<close>
  arrives here.
\<close>

fun validate_int :: "lib \<Rightarrow> json \<Rightarrow> py_exception + int" where
  "validate_int L (JInt n) = Inr n"
| "validate_int L (JBool b) = Inr (if b then 1 else 0)"
| "validate_int L (JFloat (Finite x)) =
     (case pydantic L of
        PydanticV1 \<Rightarrow> Inr (if 0 \<le> x then \<lfloor>x\<rfloor> else \<lceil>x\<rceil>)
      | PydanticV2 \<Rightarrow>
          (if x = real_of_int \<lfloor>x\<rfloor> \<and> - (2 ^ 63) < x \<and> x < 2 ^ 63 then Inr \<lfloor>x\<rfloor>
           else Inl ValidationError))"
| "validate_int L _ = Inl ValidationError"

text \<open>
  A field declared \<open>float\<close>: a \<open>float\<close> is taken as it is (\<open>NaN\<close> and the infinities
  included), an \<open>int\<close> or \<open>bool\<close> is converted (after the clamp of \<open>confianca\<close> the only
  integers arriving here are 0 and 1, which convert exactly).
\<close>

fun validate_float :: "lib \<Rightarrow> json \<Rightarrow> py_exception + pyfloat" where
  "validate_float L (JFloat f) = Inr f"
| "validate_float L (JInt n) = Inr (Finite (real_of_int n))"
| "validate_float L (JBool b) = Inr (Finite (if b then 1 else 0))"
| "validate_float L _ = Inl ValidationError"

text \<open>Sequencing of steps that may raise: the first exception is the outcome.\<close>

definition and_then :: "('e + 'a) \<Rightarrow> ('a \<Rightarrow> 'e + 'b) \<Rightarrow> 'e + 'b" where
  "and_then m f = (case m of Inl e \<Rightarrow> Inl e | Inr x \<Rightarrow> f x)"

text \<open>
  \<open>Argumento(categoria=..., ...)\<close>: the six values are validated against the declared
  field types; a field that fails makes the constructor raise.
\<close>

definition new_Argumento ::
  "lib \<Rightarrow> json \<Rightarrow> json \<Rightarrow> json \<Rightarrow> json \<Rightarrow> json \<Rightarrow> json \<Rightarrow> py_exception + Argumento" where
  "new_Argumento L c f a ev r p =
     and_then (validate_str L c) (\<lambda>c'.
     and_then (validate_str L f) (\<lambda>f'.
     and_then (validate_str L a) (\<lambda>a'.
     and_then (validate_list_str L ev) (\<lambda>ev'.
     and_then (validate_int L r) (\<lambda>r'.
     and_then (validate_str L p) (\<lambda>p'.
       Inr \<lparr>categoria = c', fundamento_legal = f', argumento = a', evidencias = ev',
            relevancia = r', pagina_referencia = p'\<rparr>))))))"

text \<open>
  \<open>ResultadoFinal(...)\<close>: \<open>processo_id\<close> comes from the validated request, \<open>status\<close> is a
  literal and \<open>argumentos\<close> a list of \<open>Argumento\<close>; the other three are validated.
\<close>

definition new_ResultadoFinal ::
  "lib \<Rightarrow> pystr \<Rightarrow> pystr \<Rightarrow> Argumento list \<Rightarrow> json \<Rightarrow> json \<Rightarrow> json
     \<Rightarrow> py_exception + ResultadoFinal" where
  "new_ResultadoFinal L pid st args res conf al =
     and_then (validate_str L res) (\<lambda>res'.
     and_then (validate_float L conf) (\<lambda>conf'.
     and_then (validate_list_str L al) (\<lambda>al'.
       Inr \<lparr>rf_processo_id = pid, status = st, argumentos = args, resumo = res',
            confianca = conf', alertas = al'\<rparr>)))"

section \<open>The literals of \<open>main.py\<close>\<close>

definition nl :: pystr where
  "nl = [10]"

definition indent :: pystr where
  "indent = u ''        ''"

definition msg_sem_chave :: pystr where
  "msg_sem_chave = u ''API Key OpenAI n'' @ [227] @ u ''o configurada''"

definition NENHUM_ARGUMENTO_IDENTIFICADO :: pystr where
  "NENHUM_ARGUMENTO_IDENTIFICADO = u ''NENHUM_ARGUMENTO_IDENTIFICADO''"

definition SUCESSO :: pystr where
  "SUCESSO = u ''SUCESSO''"

definition resumo_sem_argumentos :: pystr where
  "resumo_sem_argumentos =
     u ''N'' @ [227] @ u ''o foi poss'' @ [237] @ u ''vel identificar argumentos jur'' @ [237]
       @ u ''dicos claros no texto fornecido.''"

definition alerta_sem_argumentos :: pystr where
  "alerta_sem_argumentos =
     u ''Texto pode estar truncado ou sem argumentos jur'' @ [237] @ u ''dicos claros''"

definition nao_especificado :: pystr where
  "nao_especificado = u ''N'' @ [227] @ u ''o especificado''"

definition resumo_padrao :: pystr where
  "resumo_padrao =
     u ''An'' @ [225] @ u ''lise conclu'' @ [237] @ u ''da com sucesso.''"

definition prefixo_json :: pystr where
  "prefixo_json = u ''Erro na estrutura'' @ [231, 227] @ u ''o da resposta JSON: ''"

definition prefixo_openai :: pystr where
  "prefixo_openai = u ''Erro na API OpenAI: ''"

definition prefixo_interno :: pystr where
  "prefixo_interno = u ''Erro interno do servidor: ''"

section \<open>Normalising the decoded reply (lines 167 to 201)\<close>

text \<open>The body of the \<open>for\<close> loop: one \<open>Argumento\<close> from one element of the list.\<close>

definition converter_argumento :: "lib \<Rightarrow> json \<Rightarrow> py_exception + Argumento" where
  "converter_argumento L arg_data =
     and_then (py_get arg_data (u ''categoria'') (JStr (u ''OUTROS''))) (\<lambda>c.
     and_then (py_get arg_data (u ''fundamento_legal'') (JStr nao_especificado)) (\<lambda>f.
     and_then (py_get arg_data (u ''argumento'') (JStr [])) (\<lambda>a.
     and_then (py_get arg_data (u ''evidencias'') (JArr [])) (\<lambda>ev.
     and_then (py_get arg_data (u ''relevancia'') (JInt 5)) (\<lambda>r0.
     and_then (min_max r0 (JInt 1) (JInt 10)) (\<lambda>r.
     and_then (py_get arg_data (u ''pagina_referencia'') (JStr [])) (\<lambda>p.
       new_Argumento L c f a ev r p)))))))"

text \<open>
  From \<open>if not resultado_json.get("argumentos")\<close> to \<open>return resultado\<close>. The subscript
  \<open>resultado_json["argumentos"]\<close> of the loop reads the value the \<open>get\<close> has returned.
\<close>

definition estruturar :: "lib \<Rightarrow> ProcessoInput \<Rightarrow> json \<Rightarrow> py_exception + ResultadoFinal" where
  "estruturar L dados resultado_json =
     and_then (py_get resultado_json (u ''argumentos'') JNull) (\<lambda>args.
       if \<not> truthy args then
         new_ResultadoFinal L (processo_id dados) NENHUM_ARGUMENTO_IDENTIFICADO []
           (JStr resumo_sem_argumentos) (JFloat (Finite 0.1))
           (JArr [JStr alerta_sem_argumentos])
       else
         and_then (py_iter args) (\<lambda>xs.
         and_then (for_each (converter_argumento L) xs) (\<lambda>argumentos.
         and_then (py_get resultado_json (u ''resumo'') (JStr resumo_padrao)) (\<lambda>res.
         and_then (py_get resultado_json (u ''confianca'') (JFloat (Finite 0.5))) (\<lambda>c0.
         and_then (min_max c0 (JFloat (Finite 0.0)) (JFloat (Finite 1.0))) (\<lambda>c.
         and_then (py_get resultado_json (u ''alertas'') (JArr [])) (\<lambda>al.
           new_ResultadoFinal L (processo_id dados) SUCESSO argumentos res c al)))))))"

section \<open>The request to the model service (lines 132 to 165)\<close>

record chat_request =
  model :: pystr
  system_content :: pystr
  user_content :: pystr
  temperature :: real
  max_tokens :: int
  top_p :: real
  response_format :: pystr

text \<open>
  The outcome of \<open>openai.chat.completions.create\<close>: an exception, or a response whose
  \<open>choices\<close> each hold a message \<open>content\<close> (a \<open>str\<close> or \<open>None\<close>).
\<close>

datatype completion = Raises py_exception | Choices "pystr option list"

text \<open>
  The f-string of lines 133 to 148, in three parts: the text up to the document, the
  slice \<open>dados.texto_impugnacao[:4000]\<close>, and the text after it.
\<close>

definition contexto_antes :: "lib \<Rightarrow> ProcessoInput \<Rightarrow> pystr" where
  "contexto_antes L dados =
     nl @ indent @ u ''<case_metadata>''
     @ nl @ indent @ u ''- Process ID: '' @ processo_id dados
     @ nl @ indent @ u ''- Tax Assessment: '' @ auto_infracao dados
     @ nl @ indent @ u ''- Taxpayer: '' @ contribuinte dados
     @ nl @ indent @ u ''- Fine Amount: R$ '' @ format_multa L (valor_multa dados)
     @ nl @ indent @ u ''</case_metadata>''
     @ nl @ indent
     @ nl @ indent @ u ''<document_to_analyze>''
     @ nl @ indent"

definition contexto_depois :: pystr where
  "contexto_depois =
     nl @ indent @ u ''</document_to_analyze>''
     @ nl @ indent
     @ nl @ indent @ u ''<analysis_instruction>''
     @ nl @ indent @ u ''Analyze this Brazilian tax challenge document step by step. Extract only arguments explicitly stated in the text. Categorize by legal foundation and assess strength based on Brazilian tax jurisprudence.''
     @ nl @ indent @ u ''</analysis_instruction>''
     @ nl @ indent"

definition contexto_estruturado :: "lib \<Rightarrow> ProcessoInput \<Rightarrow> pystr" where
  "contexto_estruturado L dados =
     contexto_antes L dados @ take 4000 (texto_impugnacao dados) @ contexto_depois"

definition pedido :: "lib \<Rightarrow> ProcessoInput \<Rightarrow> chat_request" where
  "pedido L dados =
     \<lparr>model = u ''gpt-4o-mini'',
      system_content = PROMPT_SISTEMA L,
      user_content = contexto_estruturado L dados,
      temperature = 0.1,
      max_tokens = 4000,
      top_p = 0.95,
      response_format = u ''json_object''\<rparr>"

section \<open>The endpoint \<open>/analisar\<close> (lines 125 to 219)\<close>

text \<open>\<open>not os.getenv("OPENAI_API_KEY")\<close>: the variable is unset, or set to the empty string.\<close>

fun sem_chave :: "pystr option \<Rightarrow> bool" where
  "sem_chave None = True"
| "sem_chave (Some k) = (k = [])"

text \<open>
  \<open>response.choices[0].message.content\<close>, then \<open>json.loads\<close>: an empty \<open>choices\<close> raises
  \<open>IndexError\<close>, and \<open>json.loads(None)\<close> raises \<open>TypeError\<close>.
\<close>

fun resultado_raw :: "pystr option list \<Rightarrow> py_exception + pystr" where
  "resultado_raw [] = Inl IndexError"
| "resultado_raw (None # _) = Inl TypeError"
| "resultado_raw (Some s # _) = Inr s"

text \<open>
  The body of the \<open>try\<close>. It returns the result or the exception raised, together with
  the requests sent to the model service, in order.
\<close>

definition corpo ::
  "lib \<Rightarrow> pystr option \<Rightarrow> (chat_request \<Rightarrow> completion) \<Rightarrow> ProcessoInput
     \<Rightarrow> (py_exception + ResultadoFinal) \<times> chat_request list" where
  "corpo L chave openai dados =
     (if sem_chave chave then
        (Inl (HTTPException \<lparr>status_code = 500, detail = msg_sem_chave\<rparr>), [])
      else
        (case openai (pedido L dados) of
           Raises e \<Rightarrow> Inl e
         | Choices cs \<Rightarrow>
             and_then (resultado_raw cs) (\<lambda>raw.
             and_then (loads L raw) (\<lambda>resultado_json.
               estruturar L dados resultado_json)),
         [pedido L dados]))"

text \<open>
  The three \<open>except\<close> clauses, tried in order. An \<open>HTTPException\<close> raised in the body is
  an \<open>Exception\<close> and neither of the first two, so the last clause takes it.
\<close>

fun tratar :: "lib \<Rightarrow> py_exception \<Rightarrow> http_exception" where
  "tratar L (JSONDecodeError d) = \<lparr>status_code = 422, detail = prefixo_json @ d\<rparr>"
| "tratar L (OpenAIError d) = \<lparr>status_code = 503, detail = prefixo_openai @ d\<rparr>"
| "tratar L e = \<lparr>status_code = 500, detail = prefixo_interno @ str_exc L e\<rparr>"

definition analisar_impugnacao ::
  "lib \<Rightarrow> pystr option \<Rightarrow> (chat_request \<Rightarrow> completion) \<Rightarrow> ProcessoInput
     \<Rightarrow> (http_exception + ResultadoFinal) \<times> chat_request list" where
  "analisar_impugnacao L chave openai dados =
     (case corpo L chave openai dados of
        (Inl e, chamadas) \<Rightarrow> (Inl (tratar L e), chamadas)
      | (Inr resultado, chamadas) \<Rightarrow> (Inr resultado, chamadas))"

text \<open>The endpoint \<open>/teste\<close> (lines 221 to 232) runs the same pipeline on a fixed submission.\<close>

definition dados_teste :: ProcessoInput where
  "dados_teste =
     \<lparr>processo_id = u ''TESTE-001'',
      texto_impugnacao =
        u ''Venho por meio desta impugnar o auto de infra'' @ [231, 227]
        @ u ''o, alegando prescri'' @ [231, 227]
        @ u ''o do direito de constituir o cr'' @ [233] @ u ''dito tribut'' @ [225]
        @ u ''rio conforme artigo 173 do CTN, uma vez que o lan'' @ [231]
        @ u ''amento ocorreu ap'' @ [243] @ u ''s 5 anos.'',
      auto_infracao = u ''AI-TESTE-123'',
      contribuinte = u ''Empresa Teste Ltda'',
      valor_multa = Finite 10000.00\<rparr>"

definition teste_basico ::
  "lib \<Rightarrow> pystr option \<Rightarrow> (chat_request \<Rightarrow> completion)
     \<Rightarrow> (http_exception + ResultadoFinal) \<times> chat_request list" where
  "teste_basico L chave openai = analisar_impugnacao L chave openai dados_teste"

section \<open>Notions of the specification\<close>


text \<open>
  A well-formed field is absent or holds a value of the type the model declares for it;
  a well-formed argument is an object whose six fields are well formed.
\<close>

fun is_str :: "json \<Rightarrow> bool" where
  "is_str (JStr _) = True"
| "is_str _ = False"

fun is_int :: "json \<Rightarrow> bool" where
  "is_int (JInt _) = True"
| "is_int _ = False"

fun is_number :: "json \<Rightarrow> bool" where
  "is_number (JInt _) = True"
| "is_number (JFloat _) = True"
| "is_number _ = False"

fun is_str_list :: "json \<Rightarrow> bool" where
  "is_str_list (JArr xs) = list_all is_str xs"
| "is_str_list _ = False"

definition campo :: "(json \<Rightarrow> bool) \<Rightarrow> (pystr \<times> json) list \<Rightarrow> pystr \<Rightarrow> bool" where
  "campo p kvs k = (case map_of kvs k of None \<Rightarrow> True | Some v \<Rightarrow> p v)"

fun argumento_bem_formado :: "json \<Rightarrow> bool" where
  "argumento_bem_formado (JObj kvs) =
     (campo is_str kvs (u ''categoria'') \<and> campo is_str kvs (u ''fundamento_legal'')
      \<and> campo is_str kvs (u ''argumento'') \<and> campo is_str_list kvs (u ''evidencias'')
      \<and> campo is_int kvs (u ''relevancia'') \<and> campo is_str kvs (u ''pagina_referencia''))"
| "argumento_bem_formado _ = False"

definition resposta_bem_formada :: "(pystr \<times> json) list \<Rightarrow> bool" where
  "resposta_bem_formada kvs =
     (campo is_str kvs (u ''resumo'') \<and> campo is_number kvs (u ''confianca'')
      \<and> campo is_str_list kvs (u ''alertas''))"

text \<open>The clamp of the specification: a value forced into a closed range.\<close>

definition clamp :: "int \<Rightarrow> int \<Rightarrow> int \<Rightarrow> int" where
  "clamp lo hi r = (if r \<le> lo then lo else if hi \<le> r then hi else r)"

text \<open>The result of the empty branch, for a submission.\<close>

definition sem_argumentos :: "ProcessoInput \<Rightarrow> ResultadoFinal" where
  "sem_argumentos dados =
     \<lparr>rf_processo_id = processo_id dados, status = NENHUM_ARGUMENTO_IDENTIFICADO,
      argumentos = [], resumo = resumo_sem_argumentos, confianca = Finite 0.1,
      alertas = [alerta_sem_argumentos]\<rparr>"

section \<open>An instance to run the model on\<close>

text \<open>
  Collaborators for the examples: pydantic 2, a \<open>json.loads\<close> that knows two texts, and
  the \<open>str(e)\<close> of an \<open>HTTPException\<close> as recent Starlette prints it. The theorems hold for
  every \<open>lib\<close>; this one only feeds the examples.
\<close>

definition loads_exemplo :: "pystr \<Rightarrow> py_exception + json" where
  "loads_exemplo s =
     (if s = u ''{}'' then Inr (JObj [])
      else if s = u ''[]'' then Inr (JArr [])
      else Inl (JSONDecodeError (u ''Expecting value: line 1 column 1 (char 0)'')))"

fun str_exc_exemplo :: "py_exception \<Rightarrow> pystr" where
  "str_exc_exemplo (HTTPException h) = u ''500: '' @ detail h"
| "str_exc_exemplo _ = []"

definition lib_exemplo :: lib where
  "lib_exemplo =
     \<lparr>pydantic = PydanticV2, py_str = (\<lambda>v. []), loads = loads_exemplo,
      str_exc = str_exc_exemplo, format_multa = (\<lambda>f. u ''10,000.00''),
      PROMPT_SISTEMA = []\<rparr>"

definition openai_exemplo :: "pystr \<Rightarrow> chat_request \<Rightarrow> completion" where
  "openai_exemplo texto req = Choices [Some texto]"

section \<open>Auxiliary facts\<close>

subsection \<open>Sequencing and loops\<close>

lemma u_eq_iff [simp]: "u s = u t \<longleftrightarrow> s = t"
  by (simp add: u_def inj_on_def)

lemma and_then_Inl [simp]: "and_then (Inl e) f = Inl e"
  by (simp add: and_then_def)

lemma and_then_Inr [simp]: "and_then (Inr x) f = f x"
  by (simp add: and_then_def)

lemma and_then_eq_Inr: "and_then m f = Inr y \<longleftrightarrow> (\<exists>x. m = Inr x \<and> f x = Inr y)"
  by (cases m) simp_all

lemma for_each_Inr:
  "for_each f xs = Inr ys \<Longrightarrow> length ys = length xs \<and> (\<forall>i<length xs. f (xs ! i) = Inr (ys ! i))"
proof (induction xs arbitrary: ys)
  case Nil
  then show ?case by simp
next
  case (Cons x xs)
  then obtain y ys' where y: "f x = Inr y" and r: "for_each f xs = Inr ys'" and e: "ys = y # ys'"
    by (auto split: sum.splits)
  from Cons.IH [OF r] show ?case
    using y e by (auto simp: nth_Cons split: nat.splits)
qed

lemma for_each_total:
  "(\<forall>x\<in>set xs. \<exists>y. f x = Inr y) \<Longrightarrow> \<exists>ys. for_each f xs = Inr ys"
  by (induction xs) (auto split: sum.splits)


subsection \<open>The clamp expression\<close>

lemma min_max_int: "min_max (JInt r) (JInt 1) (JInt 10) = Inr (JInt (clamp 1 10 r))"
  by (simp add: min_max_def py_max_def py_min_def clamp_def)


subsection \<open>The model constructors\<close>


lemma new_ResultadoFinal_Inr:
  "new_ResultadoFinal L pid st args res conf al = Inr r \<longleftrightarrow>
     (\<exists>res' conf' al'. validate_str L res = Inr res' \<and> validate_float L conf = Inr conf'
        \<and> validate_list_str L al = Inr al'
        \<and> r = \<lparr>rf_processo_id = pid, status = st, argumentos = args, resumo = res',
            confianca = conf', alertas = al'\<rparr>)"
  by (auto simp: new_ResultadoFinal_def and_then_eq_Inr)

lemma py_get_JObj: "py_get (JObj kvs) k d = Inr (dict_get kvs k d)"
  by (simp add: py_get_def)

lemma py_get_Inr: "py_get d k dflt = Inr v \<Longrightarrow> \<exists>kvs. d = JObj kvs"
  by (cases d) (simp_all add: py_get_def)





subsection \<open>The two branches of the normaliser\<close>

lemma estruturar_falsy:
  assumes "case map_of obj (u ''argumentos'') of None \<Rightarrow> True | Some v \<Rightarrow> \<not> truthy v"
  shows "estruturar L dados (JObj obj) = Inr (sem_argumentos dados)"
  using assms
  by (auto simp: estruturar_def py_get_JObj dict_get_def new_ResultadoFinal_def
                 sem_argumentos_def split: option.splits)

lemma estruturar_truthy:
  assumes "map_of obj (u ''argumentos'') = Some v" and "truthy v"
  shows "estruturar L dados (JObj obj) =
           and_then (py_iter v) (\<lambda>xs.
           and_then (for_each (converter_argumento L) xs) (\<lambda>argumentos.
           and_then (min_max (dict_get obj (u ''confianca'') (JFloat (Finite 0.5)))
                       (JFloat (Finite 0.0)) (JFloat (Finite 1.0))) (\<lambda>c.
             new_ResultadoFinal L (processo_id dados) SUCESSO argumentos
               (dict_get obj (u ''resumo'') (JStr resumo_padrao))
               c
               (dict_get obj (u ''alertas'') (JArr [])))))"
  using assms by (simp add: estruturar_def py_get_JObj dict_get_def [of _ "u ''argumentos''"])

lemma estruturar_Inr_cases:
  assumes "estruturar L dados j = Inr r"
  shows "r = sem_argumentos dados \<or>
         (\<exists>obj v xs. j = JObj obj \<and> map_of obj (u ''argumentos'') = Some v \<and> truthy v
            \<and> py_iter v = Inr xs \<and> for_each (converter_argumento L) xs = Inr (argumentos r)
            \<and> status r = SUCESSO
            \<and> (\<exists>c. min_max (dict_get obj (u ''confianca'') (JFloat (Finite 0.5)))
                       (JFloat (Finite 0.0)) (JFloat (Finite 1.0)) = Inr c
                  \<and> validate_float L c = Inr (confianca r)))"
proof -
  from assms obtain obj where j: "j = JObj obj"
    by (auto simp: estruturar_def and_then_eq_Inr dest: py_get_Inr)
  show ?thesis
  proof (cases "case map_of obj (u ''argumentos'') of None \<Rightarrow> True | Some v \<Rightarrow> \<not> truthy v")
    case True
    from estruturar_falsy [OF True] assms j show ?thesis by simp
  next
    case False
    then obtain v where v: "map_of obj (u ''argumentos'') = Some v" "truthy v"
      by (auto split: option.splits)
    from assms show ?thesis
      unfolding j estruturar_truthy [OF v]
      using v by (auto simp: and_then_eq_Inr new_ResultadoFinal_Inr)
  qed
qed


subsection \<open>The endpoint\<close>

lemma analisar_sem_chave:
  assumes "sem_chave chave"
  shows "analisar_impugnacao L chave openai dados =
           (Inl \<lparr>status_code = 500,
                 detail = prefixo_interno
                   @ str_exc L (HTTPException \<lparr>status_code = 500, detail = msg_sem_chave\<rparr>)\<rparr>, [])"
  using assms by (simp add: analisar_impugnacao_def corpo_def)

lemma analisar_loads:
  assumes "\<not> sem_chave chave" and "openai (pedido L dados) = Choices (Some raw # cs)"
  shows "analisar_impugnacao L chave openai dados =
           (case and_then (loads L raw) (estruturar L dados) of
              Inl e \<Rightarrow> Inl (tratar L e) | Inr r \<Rightarrow> Inr r, [pedido L dados])"
  using assms by (simp add: analisar_impugnacao_def corpo_def split: sum.splits)

lemmas executar =
  estruturar_def converter_argumento_def new_Argumento_def new_ResultadoFinal_def
  py_get_def dict_get_def min_max_def py_max_def py_min_def
  analisar_impugnacao_def corpo_def pedido_def contexto_estruturado_def
  lib_exemplo_def loads_exemplo_def openai_exemplo_def

lemma analisar_estruturar:
  assumes "\<not> sem_chave chave" and "openai (pedido L dados) = Choices (Some raw # cs)"
    and "loads L raw = Inr j"
  shows "analisar_impugnacao L chave openai dados =
           (case estruturar L dados j of Inl e \<Rightarrow> Inl (tratar L e) | Inr r \<Rightarrow> Inr r,
            [pedido L dados])"
  using assms by (simp add: analisar_loads)

subsection \<open>Well-formed input validates\<close>

lemma campo_dict_get: "campo p kvs k \<Longrightarrow> p d \<Longrightarrow> p (dict_get kvs k d)"
  by (simp add: campo_def dict_get_def split: option.splits)

lemma is_str_validates: "is_str v \<Longrightarrow> \<exists>s. validate_str L v = Inr s"
  by (cases v) simp_all

lemma is_str_list_validates: "is_str_list v \<Longrightarrow> \<exists>ys. validate_list_str L v = Inr ys"
proof (cases v)
  case (JArr xs)
  assume "is_str_list v"
  with JArr have "\<forall>x\<in>set xs. \<exists>s. validate_str L x = Inr s"
    by (auto simp: list_all_iff intro: is_str_validates)
  from for_each_total [OF this] JArr show ?thesis by simp
qed simp_all

lemma is_int_relevancia:
  "is_int v \<Longrightarrow> \<exists>w n. min_max v (JInt 1) (JInt 10) = Inr w \<and> validate_int L w = Inr n"
  by (cases v) (simp_all add: min_max_int)

lemma is_number_confianca:
  "is_number v \<Longrightarrow>
     \<exists>w f. min_max v (JFloat (Finite 0.0)) (JFloat (Finite 1.0)) = Inr w
       \<and> validate_float L w = Inr f"
proof (cases v)
  case (JFloat f)
  then show ?thesis
    by (cases f) (simp_all add: min_max_def py_max_def py_min_def)
qed (simp_all add: min_max_def py_max_def py_min_def)

lemma bem_formado_converte:
  assumes "argumento_bem_formado x"
  shows "\<exists>a. converter_argumento L x = Inr a"
proof -
  from assms obtain kvs where x: "x = JObj kvs"
    by (cases x) simp_all
  from assms x have
    c: "is_str (dict_get kvs (u ''categoria'') (JStr (u ''OUTROS'')))" and
    f: "is_str (dict_get kvs (u ''fundamento_legal'') (JStr nao_especificado))" and
    a: "is_str (dict_get kvs (u ''argumento'') (JStr []))" and
    e: "is_str_list (dict_get kvs (u ''evidencias'') (JArr []))" and
    r: "is_int (dict_get kvs (u ''relevancia'') (JInt 5))" and
    p: "is_str (dict_get kvs (u ''pagina_referencia'') (JStr []))"
    by (simp_all add: campo_dict_get)
  from is_str_validates [OF c] obtain c' where
    c': "validate_str L (dict_get kvs (u ''categoria'') (JStr (u ''OUTROS''))) = Inr c'" by blast
  from is_str_validates [OF f] obtain f' where
    f': "validate_str L (dict_get kvs (u ''fundamento_legal'') (JStr nao_especificado)) = Inr f'"
    by blast
  from is_str_validates [OF a] obtain a' where
    a': "validate_str L (dict_get kvs (u ''argumento'') (JStr [])) = Inr a'" by blast
  from is_str_list_validates [OF e] obtain e' where
    e': "validate_list_str L (dict_get kvs (u ''evidencias'') (JArr [])) = Inr e'" by blast
  from is_int_relevancia [OF r] obtain w n where
    w: "min_max (dict_get kvs (u ''relevancia'') (JInt 5)) (JInt 1) (JInt 10) = Inr w" and
    n: "validate_int L w = Inr n" by blast
  from is_str_validates [OF p] obtain p' where
    p': "validate_str L (dict_get kvs (u ''pagina_referencia'') (JStr [])) = Inr p'" by blast
  show ?thesis
    unfolding x converter_argumento_def py_get_JObj and_then_Inr
    by (simp add: w new_Argumento_def c' f' a' e' n p')
qed

lemma estruturar_bem_formada:
  assumes "map_of obj (u ''argumentos'') = Some (JArr xs)" and "xs \<noteq> []"
    and "list_all argumento_bem_formado xs" and "resposta_bem_formada obj"
  shows "\<exists>r. estruturar L dados (JObj obj) = Inr r \<and> status r = SUCESSO
           \<and> length (argumentos r) = length xs
           \<and> (\<forall>i<length xs. converter_argumento L (xs ! i) = Inr (argumentos r ! i))"
proof -
  from assms(3) have "\<forall>x\<in>set xs. \<exists>a. converter_argumento L x = Inr a"
    by (auto simp: list_all_iff intro: bem_formado_converte)
  from for_each_total [OF this] obtain ys
    where ys: "for_each (converter_argumento L) xs = Inr ys" by blast
  from assms(4) have
    "is_str (dict_get obj (u ''resumo'') (JStr resumo_padrao))"
    "is_number (dict_get obj (u ''confianca'') (JFloat (Finite 0.5)))"
    "is_str_list (dict_get obj (u ''alertas'') (JArr []))"
    by (simp_all add: resposta_bem_formada_def campo_dict_get)
  from is_str_validates [OF this(1)] is_number_confianca [OF this(2)]
    is_str_list_validates [OF this(3)]
  obtain res w f al where
    "validate_str L (dict_get obj (u ''resumo'') (JStr resumo_padrao)) = Inr res"
    "min_max (dict_get obj (u ''confianca'') (JFloat (Finite 0.5)))
       (JFloat (Finite 0.0)) (JFloat (Finite 1.0)) = Inr w"
    "validate_float L w = Inr f"
    "validate_list_str L (dict_get obj (u ''alertas'') (JArr [])) = Inr al"
    by blast
  with ys have "estruturar L dados (JObj obj) =
      Inr \<lparr>rf_processo_id = processo_id dados, status = SUCESSO, argumentos = ys,
           resumo = res, confianca = f, alertas = al\<rparr>"
    using assms(1,2) by (simp add: estruturar_truthy new_ResultadoFinal_def)
  with for_each_Inr [OF ys] show ?thesis by simp
qed

lemma confianca_range:
  assumes "min_max v (JFloat (Finite 0.0)) (JFloat (Finite 1.0)) = Inr c"
    and "validate_float L c = Inr g" and "v \<noteq> JFloat NaN"
  shows "\<exists>x. g = Finite x \<and> 0 \<le> x \<and> x \<le> 1"
proof (cases v)
  case (JFloat f)
  with assms show ?thesis
    by (cases f) (auto simp: min_max_def py_max_def py_min_def split: if_splits)
qed (use assms in \<open>auto simp: min_max_def py_max_def py_min_def split: if_splits\<close>)

lemma confianca_in_range_unless_nan:
  assumes "estruturar L dados (JObj obj) = Inr r"
    and "dict_get obj (u ''confianca'') (JFloat (Finite 0.5)) \<noteq> JFloat NaN"
  shows "\<exists>x. confianca r = Finite x \<and> 0 \<le> x \<and> x \<le> 1"
proof -
  from estruturar_Inr_cases [OF assms(1)]
  show ?thesis
  proof
    assume "r = sem_argumentos dados"
    then have "confianca r = Finite (1 / 10)" by (simp add: sem_argumentos_def)
    then show ?thesis by (intro exI [of _ "1 / 10"]) simp
  next
    assume "\<exists>obj' v xs. JObj obj = JObj obj' \<and> map_of obj' (u ''argumentos'') = Some v \<and> truthy v
            \<and> py_iter v = Inr xs \<and> for_each (converter_argumento L) xs = Inr (argumentos r)
            \<and> status r = SUCESSO
            \<and> (\<exists>c. min_max (dict_get obj' (u ''confianca'') (JFloat (Finite 0.5)))
                       (JFloat (Finite 0.0)) (JFloat (Finite 1.0)) = Inr c
                  \<and> validate_float L c = Inr (confianca r))"
    then obtain c where
      c: "min_max (dict_get obj (u ''confianca'') (JFloat (Finite 0.5)))
            (JFloat (Finite 0.0)) (JFloat (Finite 1.0)) = Inr c"
      and v: "validate_float L c = Inr (confianca r)"
      by auto
    from confianca_range [OF c v assms(2)] show ?thesis .
  qed
qed

lemma pedido_truncado:
  "pedido L (dados\<lparr>texto_impugnacao := take 4000 (texto_impugnacao dados)\<rparr>) = pedido L dados"
  by (simp add: pedido_def contexto_estruturado_def contexto_antes_def)

lemma estruturar_texto:
  "estruturar L (dados\<lparr>texto_impugnacao := t\<rparr>) j = estruturar L dados j"
  by (simp add: estruturar_def cong: if_cong)

lemma estruturar_lista:
  assumes "estruturar L dados (JObj obj) = Inr r"
    and "map_of obj (u ''argumentos'') = Some (JArr xs)" and "xs \<noteq> []"
  shows "status r = SUCESSO \<and> length (argumentos r) = length xs
           \<and> (\<forall>i<length xs. converter_argumento L (xs ! i) = Inr (argumentos r ! i))"
proof -
  from assms(3) have t: "truthy (JArr xs)"
    by simp
  from assms(1) obtain ys where ys: "for_each (converter_argumento L) xs = Inr ys"
    and r: "status r = SUCESSO" "argumentos r = ys"
    unfolding estruturar_truthy [OF assms(2) t]
    by (auto simp: and_then_eq_Inr new_ResultadoFinal_Inr)
  from for_each_Inr [OF ys] r show ?thesis by simp
qed

subsection \<open>What the conversion of an element can raise\<close>

lemma and_then_eq_Inl:
  "and_then m f = Inl e \<longleftrightarrow> m = Inl e \<or> (\<exists>x. m = Inr x \<and> f x = Inl e)"
  by (cases m) simp_all

lemma for_each_raises:
  assumes "x \<in> set xs" and "f x = Inl e"
  shows "\<exists>y\<in>set xs. \<exists>e'. f y = Inl e' \<and> for_each f xs = Inl e'"
  using assms
proof (induction xs)
  case Nil
  then show ?case by simp
next
  case (Cons a xs)
  show ?case
  proof (cases "f a")
    case (Inl e')
    then show ?thesis by auto
  next
    case (Inr b)
    with Cons.prems have "x \<in> set xs" by auto
    from Cons.IH [OF this Cons.prems(2)] obtain y e'
      where "y \<in> set xs" "f y = Inl e'" "for_each f xs = Inl e'" by blast
    with Inr show ?thesis by auto
  qed
qed

lemma validate_str_Inl: "validate_str L v = Inl e \<Longrightarrow> e = ValidationError"
  by (cases v) (auto split: pydantic_version.splits)

lemma for_each_validate_str_Inl:
  "for_each (validate_str L) xs = Inl e \<Longrightarrow> e = ValidationError"
  by (induction xs) (auto split: sum.splits dest: validate_str_Inl)

lemma validate_list_str_Inl: "validate_list_str L v = Inl e \<Longrightarrow> e = ValidationError"
  by (cases v) (auto dest: for_each_validate_str_Inl)

lemma validate_int_Inl: "validate_int L v = Inl e \<Longrightarrow> e = ValidationError"
proof (cases v)
  case (JFloat f)
  assume "validate_int L v = Inl e"
  with JFloat show ?thesis
    by (cases f) (auto split: pydantic_version.splits if_splits)
qed auto

lemma py_get_Inl: "py_get d k dflt = Inl e \<Longrightarrow> e = AttributeError"
  by (cases d) (auto simp: py_get_def)

lemma min_max_Inl: "min_max v lo hi = Inl e \<Longrightarrow> e = TypeError"
  by (auto simp: min_max_def py_max_def py_min_def split: sum.splits option.splits)

lemma new_Argumento_Inl: "new_Argumento L c f a ev r p = Inl e \<Longrightarrow> e = ValidationError"
  by (auto simp: new_Argumento_def and_then_eq_Inl
           dest: validate_str_Inl validate_list_str_Inl validate_int_Inl)

lemma converter_argumento_Inl:
  "converter_argumento L x = Inl e \<Longrightarrow>
     e = AttributeError \<or> e = TypeError \<or> e = ValidationError"
  by (auto simp: converter_argumento_def and_then_eq_Inl
           dest: py_get_Inl min_max_Inl new_Argumento_Inl)

lemma estruturar_elemento_raises:
  assumes "map_of obj (u ''argumentos'') = Some (JArr xs)"
    and "x \<in> set xs" and "converter_argumento L x = Inl e"
  shows "\<exists>e'. estruturar L dados (JObj obj) = Inl e' \<and> status_code (tratar L e') = 500"
proof -
  from assms(2) have t: "truthy (JArr xs)"
    by auto
  from for_each_raises [where f = "converter_argumento L", OF assms(2,3)] obtain y e'
    where y: "converter_argumento L y = Inl e'"
      and f: "for_each (converter_argumento L) xs = Inl e'" by blast
  from converter_argumento_Inl [OF y] have "status_code (tratar L e') = 500"
    by auto
  moreover from f have "estruturar L dados (JObj obj) = Inl e'"
    by (simp add: estruturar_truthy [OF assms(1) t])
  ultimately show ?thesis by blast
qed

lemma analisar_chamadas:
  "\<not> sem_chave chave \<Longrightarrow> snd (analisar_impugnacao L chave openai dados) = [pedido L dados]"
  by (simp add: analisar_impugnacao_def corpo_def split: prod.splits sum.splits)

section \<open>The claims\<close>



text \<open>
  Claim C2. When the key is configured, the service replies, and the reply decodes to an
  object whose \<open>argumentos\<close> is missing or the empty list, the endpoint returns normally:
  status \<open>NENHUM_ARGUMENTO_IDENTIFICADO\<close>, no arguments, the fixed summary, confidence 0.1
  and the one fixed warning.
\<close>

theorem empty_arguments_result:
  assumes "\<not> sem_chave chave"
    and "openai (pedido L dados) = Choices (Some raw # cs)"
    and "loads L raw = Inr (JObj obj)"
    and "map_of obj (u ''argumentos'') = None \<or> map_of obj (u ''argumentos'') = Some (JArr [])"
  shows "fst (analisar_impugnacao L chave openai dados) =
           Inr \<lparr>rf_processo_id = processo_id dados, status = NENHUM_ARGUMENTO_IDENTIFICADO,
                argumentos = [], resumo = resumo_sem_argumentos, confianca = Finite 0.1,
                alertas = [alerta_sem_argumentos]\<rparr>"
proof -
  from assms(4)
  have "case map_of obj (u ''argumentos'') of None \<Rightarrow> True | Some v \<Rightarrow> \<not> truthy v"
    by auto
  from estruturar_falsy [OF this]
  have "estruturar L dados (JObj obj) = Inr (sem_argumentos dados)" .
  with analisar_estruturar [where openai = openai, OF assms(1-3)] show ?thesis
    by (simp add: sem_argumentos_def)
qed

theorem empty_arguments_result_witness:
  "\<not> sem_chave (Some (u ''sk-teste''))
   \<and> openai_exemplo (u ''{}'') (pedido lib_exemplo dados_teste) = Choices [Some (u ''{}'')]
   \<and> loads lib_exemplo (u ''{}'') = Inr (JObj [])
   \<and> fst (analisar_impugnacao lib_exemplo (Some (u ''sk-teste'')) (openai_exemplo (u ''{}''))
           dados_teste) =
       Inr \<lparr>rf_processo_id = u ''TESTE-001'', status = NENHUM_ARGUMENTO_IDENTIFICADO,
            argumentos = [], resumo = resumo_sem_argumentos, confianca = Finite 0.1,
            alertas = [alerta_sem_argumentos]\<rparr>"
proof -
  have 1: "\<not> sem_chave (Some (u ''sk-teste''))"
    by (simp add: u_def)
  have 2: "openai_exemplo (u ''{}'') (pedido lib_exemplo dados_teste) = Choices (Some (u ''{}'') # [])"
    by (simp add: openai_exemplo_def)
  have 3: "loads lib_exemplo (u ''{}'') = Inr (JObj [])"
    by (simp add: lib_exemplo_def loads_exemplo_def)
  have 4: "map_of [] (u ''argumentos'') = None \<or> map_of [] (u ''argumentos'') = Some (JArr [])"
    by simp
  from empty_arguments_result [where openai = "openai_exemplo (u ''{}'')", OF 1 2 3 4] 1 2 3 show ?thesis
    by (simp add: dados_teste_def)
qed

text \<open>
  Claim C3. For every submission, when \<open>OPENAI_API_KEY\<close> is unset (or empty) the body of the
  \<open>try\<close> raises the configuration failure with status 500, the caller receives a failure
  with status 500, and no request has been sent to the model service.
\<close>

theorem missing_credential_no_call:
  assumes "sem_chave chave"
  shows "fst (corpo L chave openai dados)
           = Inl (HTTPException \<lparr>status_code = 500, detail = msg_sem_chave\<rparr>)
       \<and> (\<exists>h. fst (analisar_impugnacao L chave openai dados) = Inl h \<and> status_code h = 500)
       \<and> snd (analisar_impugnacao L chave openai dados) = []"
  using assms by (simp add: analisar_impugnacao_def corpo_def)

theorem missing_credential_no_call_witness:
  "sem_chave None
   \<and> fst (corpo lib_exemplo None (openai_exemplo (u ''{}'')) dados_teste)
       = Inl (HTTPException \<lparr>status_code = 500, detail = msg_sem_chave\<rparr>)
   \<and> (\<exists>h. fst (analisar_impugnacao lib_exemplo None (openai_exemplo (u ''{}'')) dados_teste)
            = Inl h \<and> status_code h = 500)
   \<and> snd (analisar_impugnacao lib_exemplo None (openai_exemplo (u ''{}'')) dados_teste) = []
   \<and> sem_chave (Some [])
   \<and> snd (analisar_impugnacao lib_exemplo (Some []) (openai_exemplo (u ''{}'')) dados_teste) = []"
proof -
  have 1: "sem_chave None" and 2: "sem_chave (Some [])"
    by simp_all
  from missing_credential_no_call [OF 1, of lib_exemplo "openai_exemplo (u ''{}'')" dados_teste]
    missing_credential_no_call [OF 2, of lib_exemplo "openai_exemplo (u ''{}'')" dados_teste]
  show ?thesis by simp
qed




text \<open>
  Claim C5, as stated, fails: one well-formed argument is not enough. A reply whose list
  holds the well-formed argument of the specification's example and a second element
  whose \<open>relevancia\<close> is a string makes the normaliser raise \<open>TypeError\<close>, which the
  endpoint reports with status 500; no result is returned.
\<close>

theorem one_wellformed_argument_not_enough:
  "argumento_bem_formado
     (JObj [(u ''categoria'', JStr (u ''PRESCRICAO'')),
            (u ''fundamento_legal'', JStr (u ''Art. 173 CTN'')), (u ''relevancia'', JInt 9)])
   \<and> estruturar lib_exemplo dados_teste
       (JObj [(u ''argumentos'', JArr
          [JObj [(u ''categoria'', JStr (u ''PRESCRICAO'')),
                 (u ''fundamento_legal'', JStr (u ''Art. 173 CTN'')), (u ''relevancia'', JInt 9)],
           JObj [(u ''relevancia'', JStr (u ''alta''))]])])
       = Inl TypeError
   \<and> status_code (tratar lib_exemplo TypeError) = 500"
  by (simp add: executar campo_def)

text \<open>
  Claim C5, amended. For a decoded reply whose \<open>argumentos\<close> is a non-empty list: whenever
  the endpoint returns a result, its status is \<open>SUCESSO\<close> and its arguments have the length
  and the order of the decoded list (the i-th is the conversion of the i-th element); and
  the endpoint does return a result when every element of the list is a well-formed
  argument and the \<open>resumo\<close>, \<open>confianca\<close> and \<open>alertas\<close> of the reply are well formed;
  and when the conversion of some element of the list raises, the endpoint returns no
  result and fails with status 500.
\<close>

theorem arguments_in_order:
  assumes "\<not> sem_chave chave"
    and "openai (pedido L dados) = Choices (Some raw # cs)"
    and "loads L raw = Inr (JObj obj)"
    and "map_of obj (u ''argumentos'') = Some (JArr xs)" and "xs \<noteq> []"
  shows "(\<forall>r. fst (analisar_impugnacao L chave openai dados) = Inr r \<longrightarrow>
            status r = SUCESSO \<and> length (argumentos r) = length xs
            \<and> (\<forall>i<length xs. converter_argumento L (xs ! i) = Inr (argumentos r ! i)))
       \<and> (list_all argumento_bem_formado xs \<and> resposta_bem_formada obj \<longrightarrow>
            (\<exists>r. fst (analisar_impugnacao L chave openai dados) = Inr r))
       \<and> ((\<exists>x\<in>set xs. \<exists>e. converter_argumento L x = Inl e) \<longrightarrow>
            (\<exists>h. fst (analisar_impugnacao L chave openai dados) = Inl h
               \<and> status_code h = 500))"
proof -
  note a = analisar_estruturar [where openai = openai, OF assms(1-3)]
  have "status r = SUCESSO \<and> length (argumentos r) = length xs
        \<and> (\<forall>i<length xs. converter_argumento L (xs ! i) = Inr (argumentos r ! i))"
    if h: "fst (analisar_impugnacao L chave openai dados) = Inr r" for r
  proof -
    from h a have "estruturar L dados (JObj obj) = Inr r"
      by (cases "estruturar L dados (JObj obj)") simp_all
    from estruturar_lista [OF this assms(4,5)] show ?thesis .
  qed
  moreover have "\<exists>r. fst (analisar_impugnacao L chave openai dados) = Inr r"
    if "list_all argumento_bem_formado xs" and "resposta_bem_formada obj"
  proof -
    from estruturar_bem_formada [OF assms(4,5) that] obtain r
      where "estruturar L dados (JObj obj) = Inr r" by blast
    with a show ?thesis by simp
  qed
  moreover have "\<exists>h. fst (analisar_impugnacao L chave openai dados) = Inl h
               \<and> status_code h = 500"
    if "\<exists>x\<in>set xs. \<exists>e. converter_argumento L x = Inl e"
  proof -
    from that obtain x e where "x \<in> set xs" "converter_argumento L x = Inl e"
      by blast
    from estruturar_elemento_raises [OF assms(4) this] obtain e'
      where "estruturar L dados (JObj obj) = Inl e'" "status_code (tratar L e') = 500"
      by blast
    with a show ?thesis by simp
  qed
  ultimately show ?thesis by blast
qed

theorem arguments_in_order_witness:
  "\<not> sem_chave (Some (u ''sk-teste''))
   \<and> list_all argumento_bem_formado
        [JObj [(u ''categoria'', JStr (u ''PRESCRICAO'')),
               (u ''fundamento_legal'', JStr (u ''Art. 173 CTN'')), (u ''relevancia'', JInt 9)],
         JObj [(u ''categoria'', JStr (u ''NULIDADE'')), (u ''relevancia'', JInt 7)]]
   \<and> resposta_bem_formada
        [(u ''argumentos'', JArr
           [JObj [(u ''categoria'', JStr (u ''PRESCRICAO'')),
                  (u ''fundamento_legal'', JStr (u ''Art. 173 CTN'')), (u ''relevancia'', JInt 9)],
            JObj [(u ''categoria'', JStr (u ''NULIDADE'')), (u ''relevancia'', JInt 7)]]),
         (u ''confianca'', JFloat (Finite 0.9))]
   \<and> fst (analisar_impugnacao
        (lib_exemplo\<lparr>loads := \<lambda>s. Inr (JObj
           [(u ''argumentos'', JArr
              [JObj [(u ''categoria'', JStr (u ''PRESCRICAO'')),
                     (u ''fundamento_legal'', JStr (u ''Art. 173 CTN'')),
                     (u ''relevancia'', JInt 9)],
               JObj [(u ''categoria'', JStr (u ''NULIDADE'')), (u ''relevancia'', JInt 7)]]),
            (u ''confianca'', JFloat (Finite 0.9))])\<rparr>)
        (Some (u ''sk-teste'')) (openai_exemplo (u ''{...}'')) dados_teste)
     = Inr \<lparr>rf_processo_id = u ''TESTE-001'', status = SUCESSO,
            argumentos =
              [\<lparr>categoria = u ''PRESCRICAO'', fundamento_legal = u ''Art. 173 CTN'',
                argumento = [], evidencias = [], relevancia = 9, pagina_referencia = []\<rparr>,
               \<lparr>categoria = u ''NULIDADE'', fundamento_legal = nao_especificado,
                argumento = [], evidencias = [], relevancia = 7, pagina_referencia = []\<rparr>],
            resumo = resumo_padrao, confianca = Finite 0.9, alertas = []\<rparr>
   \<and> converter_argumento lib_exemplo (JObj [(u ''relevancia'', JStr (u ''alta''))])
       = Inl TypeError
   \<and> fst (analisar_impugnacao
        (lib_exemplo\<lparr>loads := \<lambda>s. Inr (JObj
           [(u ''argumentos'', JArr
              [JObj [(u ''categoria'', JStr (u ''PRESCRICAO'')),
                     (u ''fundamento_legal'', JStr (u ''Art. 173 CTN'')),
                     (u ''relevancia'', JInt 9)],
               JObj [(u ''relevancia'', JStr (u ''alta''))]])])\<rparr>)
        (Some (u ''sk-teste'')) (openai_exemplo (u ''{...}'')) dados_teste)
     = Inl \<lparr>status_code = 500, detail = prefixo_interno\<rparr>"
proof -
  let ?ys = "[JObj [(u ''categoria'', JStr (u ''PRESCRICAO'')),
               (u ''fundamento_legal'', JStr (u ''Art. 173 CTN'')), (u ''relevancia'', JInt 9)],
         JObj [(u ''relevancia'', JStr (u ''alta''))]]"
  let ?objb = "[(u ''argumentos'', JArr ?ys)]"
  let ?Lb = "lib_exemplo\<lparr>loads := \<lambda>s. Inr (JObj ?objb)\<rparr>"
  let ?xs = "[JObj [(u ''categoria'', JStr (u ''PRESCRICAO'')),
               (u ''fundamento_legal'', JStr (u ''Art. 173 CTN'')), (u ''relevancia'', JInt 9)],
         JObj [(u ''categoria'', JStr (u ''NULIDADE'')), (u ''relevancia'', JInt 7)]]"
  let ?obj = "[(u ''argumentos'', JArr ?xs), (u ''confianca'', JFloat (Finite 0.9))]"
  let ?L = "lib_exemplo\<lparr>loads := \<lambda>s. Inr (JObj ?obj)\<rparr>"
  let ?t = "u ''{...}''"
  have 1: "\<not> sem_chave (Some (u ''sk-teste''))"
    by (simp add: u_def)
  have 2: "openai_exemplo ?t (pedido ?L dados_teste) = Choices (Some ?t # [])"
    by (simp add: openai_exemplo_def)
  have 3: "loads ?L ?t = Inr (JObj ?obj)"
    by simp
  have 4: "map_of ?obj (u ''argumentos'') = Some (JArr ?xs)"
    by simp
  have 5: "?xs \<noteq> []"
    by simp
  have 6: "list_all argumento_bem_formado ?xs"
    by (simp add: campo_def)
  have 7: "resposta_bem_formada ?obj"
    by (simp add: resposta_bem_formada_def campo_def)
  have b2: "openai_exemplo ?t (pedido ?Lb dados_teste) = Choices (Some ?t # [])"
    by (simp add: openai_exemplo_def)
  have b3: "loads ?Lb ?t = Inr (JObj ?objb)"
    by simp
  have b4: "map_of ?objb (u ''argumentos'') = Some (JArr ?ys)"
    by simp
  have b5: "?ys \<noteq> []"
    by simp
  have 8: "converter_argumento lib_exemplo (JObj [(u ''relevancia'', JStr (u ''alta''))])
             = Inl TypeError"
    by (simp add: executar)
  from arguments_in_order [where openai = "openai_exemplo ?t", OF 1 2 3 4 5]
    arguments_in_order [where openai = "openai_exemplo ?t", OF 1 b2 b3 b4 b5]
    1 6 7 8
  show ?thesis
    by (simp add: executar dados_teste_def)
qed

text \<open>
  Claim C6 does not hold of the code. The decoder of \<open>json\<close> accepts the literal \<open>NaN\<close>;
  no comparison with \<open>NaN\<close> is true, so \<open>min(max(nan, 0.0), 1.0)\<close> is \<open>nan\<close>, and a float
  field accepts it. The reply below gives a \<open>SUCESSO\<close> result whose confidence is \<open>NaN\<close>,
  which is not in [0,1]. (For every other number, \<open>confianca_in_range_unless_nan\<close> shows
  the confidence of the result in [0,1].)
\<close>

theorem nan_confidence_returned:
  "estruturar L dados
     (JObj [(u ''argumentos'', JArr [JObj []]), (u ''confianca'', JFloat NaN)])
   = Inr \<lparr>rf_processo_id = processo_id dados, status = SUCESSO,
          argumentos =
            [\<lparr>categoria = u ''OUTROS'', fundamento_legal = nao_especificado, argumento = [],
              evidencias = [], relevancia = 5, pagina_referencia = []\<rparr>],
          resumo = resumo_padrao, confianca = NaN, alertas = []\<rparr>"
  by (simp add: estruturar_def converter_argumento_def new_Argumento_def
        new_ResultadoFinal_def py_get_def dict_get_def min_max_def py_max_def py_min_def)

text \<open>
  Claim C7. With the key configured, the endpoint sends exactly one request to the model
  service, and its user message is a fixed part, the first 4000 code points of the
  document, and a second fixed part; a document of at most 4000 code points is included
  unchanged. Truncation is silent: once the reply is decoded, the outcome is the
  normalisation of the reply alone, whatever the length of the document, and the whole
  outcome of the endpoint (result or failure, warnings included, and the request sent)
  for a document is the outcome for its first 4000 code points.
\<close>

theorem document_truncated_silently:
  "(\<not> sem_chave chave \<longrightarrow>
      snd (analisar_impugnacao L chave openai dados) = [pedido L dados]
      \<and> map user_content (snd (analisar_impugnacao L chave openai dados))
          = [contexto_antes L dados @ take 4000 (texto_impugnacao dados) @ contexto_depois])
   \<and> user_content (pedido L dados)
       = contexto_antes L dados @ take 4000 (texto_impugnacao dados) @ contexto_depois
   \<and> (length (texto_impugnacao dados) \<le> 4000 \<longrightarrow>
        user_content (pedido L dados)
          = contexto_antes L dados @ texto_impugnacao dados @ contexto_depois)
   \<and> (\<not> sem_chave chave \<and> openai (pedido L dados) = Choices (Some raw # cs)
        \<and> loads L raw = Inr j \<longrightarrow>
        fst (analisar_impugnacao L chave openai dados)
          = (case estruturar L (dados\<lparr>texto_impugnacao := []\<rparr>) j of
               Inl e \<Rightarrow> Inl (tratar L e) | Inr r \<Rightarrow> Inr r))
   \<and> analisar_impugnacao L chave openai dados
       = analisar_impugnacao L chave openai
           (dados\<lparr>texto_impugnacao := take 4000 (texto_impugnacao dados)\<rparr>)"
proof -
  have u: "user_content (pedido L dados)
       = contexto_antes L dados @ take 4000 (texto_impugnacao dados) @ contexto_depois"
    by (simp add: pedido_def contexto_estruturado_def)
  have "corpo L chave openai (dados\<lparr>texto_impugnacao := take 4000 (texto_impugnacao dados)\<rparr>)
          = corpo L chave openai dados"
    unfolding corpo_def pedido_truncado estruturar_texto ..
  then have i: "analisar_impugnacao L chave openai dados
       = analisar_impugnacao L chave openai
           (dados\<lparr>texto_impugnacao := take 4000 (texto_impugnacao dados)\<rparr>)"
    by (simp add: analisar_impugnacao_def)
  have r: "fst (analisar_impugnacao L chave openai dados)
          = (case estruturar L (dados\<lparr>texto_impugnacao := []\<rparr>) j of
               Inl e \<Rightarrow> Inl (tratar L e) | Inr r \<Rightarrow> Inr r)"
    if "\<not> sem_chave chave" and "openai (pedido L dados) = Choices (Some raw # cs)"
      and "loads L raw = Inr j"
    using analisar_estruturar [where openai = openai, OF that]
    by (simp add: estruturar_texto)
  have s: "snd (analisar_impugnacao L chave openai dados) = [pedido L dados]
      \<and> map user_content (snd (analisar_impugnacao L chave openai dados))
          = [contexto_antes L dados @ take 4000 (texto_impugnacao dados) @ contexto_depois]"
    if "\<not> sem_chave chave"
    using analisar_chamadas [OF that, of L openai dados] u by simp
  have w: "user_content (pedido L dados)
          = contexto_antes L dados @ texto_impugnacao dados @ contexto_depois"
    if "length (texto_impugnacao dados) \<le> 4000"
    using u that by simp
  from s u w r i show ?thesis
    by blast
qed

theorem document_truncated_silently_witness:
  "\<not> sem_chave (Some (u ''sk-teste''))
   \<and> length (texto_impugnacao dados_teste) \<le> 4000
   \<and> snd (analisar_impugnacao lib_exemplo (Some (u ''sk-teste'')) (openai_exemplo (u ''{}''))
        (dados_teste\<lparr>texto_impugnacao := replicate 4001 120\<rparr>))
       = [pedido lib_exemplo (dados_teste\<lparr>texto_impugnacao := replicate 4001 120\<rparr>)]
   \<and> map user_content
        (snd (analisar_impugnacao lib_exemplo (Some (u ''sk-teste''))
           (openai_exemplo (u ''{}'')) (dados_teste\<lparr>texto_impugnacao := replicate 4001 120\<rparr>)))
       = [contexto_antes lib_exemplo dados_teste @ replicate 4000 120 @ contexto_depois]
   \<and> map user_content
        (snd (analisar_impugnacao lib_exemplo (Some (u ''sk-teste''))
           (openai_exemplo (u ''{}'')) dados_teste))
       = [contexto_antes lib_exemplo dados_teste @ texto_impugnacao dados_teste
            @ contexto_depois]
   \<and> fst (analisar_impugnacao lib_exemplo (Some (u ''sk-teste'')) (openai_exemplo (u ''{}''))
        (dados_teste\<lparr>texto_impugnacao := replicate 4001 120\<rparr>))
       = Inr \<lparr>rf_processo_id = u ''TESTE-001'', status = NENHUM_ARGUMENTO_IDENTIFICADO,
              argumentos = [], resumo = resumo_sem_argumentos, confianca = Finite 0.1,
              alertas = [alerta_sem_argumentos]\<rparr>
   \<and> analisar_impugnacao lib_exemplo (Some (u ''sk-teste'')) (openai_exemplo (u ''{}''))
        (dados_teste\<lparr>texto_impugnacao := replicate 4001 120\<rparr>)
       = analisar_impugnacao lib_exemplo (Some (u ''sk-teste'')) (openai_exemplo (u ''{}''))
           (dados_teste\<lparr>texto_impugnacao := replicate 4000 120\<rparr>)"
proof -
  let ?d = "dados_teste\<lparr>texto_impugnacao := replicate 4001 120\<rparr>"
  have 0: "\<not> sem_chave (Some (u ''sk-teste''))"
    by (simp add: u_def)
  have 1: "length (texto_impugnacao dados_teste) \<le> 4000"
    by (simp add: dados_teste_def u_def)
  have 2: "contexto_antes lib_exemplo (dados_teste\<lparr>texto_impugnacao := t\<rparr>)
             = contexto_antes lib_exemplo dados_teste" for t
    by (simp add: contexto_antes_def)
  have 3: "openai_exemplo (u ''{}'') (pedido lib_exemplo d) = Choices (Some (u ''{}'') # [])"
    for d
    by (simp add: openai_exemplo_def)
  have 4: "loads lib_exemplo (u ''{}'') = Inr (JObj [])"
    by (simp add: lib_exemplo_def loads_exemplo_def)
  have 5: "estruturar lib_exemplo (dados_teste\<lparr>texto_impugnacao := []\<rparr>) (JObj [])
             = Inr \<lparr>rf_processo_id = u ''TESTE-001'', status = NENHUM_ARGUMENTO_IDENTIFICADO,
              argumentos = [], resumo = resumo_sem_argumentos, confianca = Finite 0.1,
              alertas = [alerta_sem_argumentos]\<rparr>"
    by (simp add: estruturar_def py_get_def dict_get_def new_ResultadoFinal_def
          dados_teste_def)
  note A = document_truncated_silently [of "Some (u ''sk-teste'')" lib_exemplo
      "openai_exemplo (u ''{}'')" dados_teste "u ''{}''" "[]" "JObj []"]
  note B = document_truncated_silently [of "Some (u ''sk-teste'')" lib_exemplo
      "openai_exemplo (u ''{}'')" ?d "u ''{}''" "[]" "JObj []"]
  from B 0 have b1:
    "snd (analisar_impugnacao lib_exemplo (Some (u ''sk-teste'')) (openai_exemplo (u ''{}''))
       ?d) = [pedido lib_exemplo ?d]"
    by blast
  from B 0 have
    "map user_content
       (snd (analisar_impugnacao lib_exemplo (Some (u ''sk-teste''))
          (openai_exemplo (u ''{}'')) ?d))
     = [contexto_antes lib_exemplo ?d @ take 4000 (texto_impugnacao ?d) @ contexto_depois]"
    by blast
  then have b2:
    "map user_content
       (snd (analisar_impugnacao lib_exemplo (Some (u ''sk-teste''))
          (openai_exemplo (u ''{}'')) ?d))
     = [contexto_antes lib_exemplo dados_teste @ replicate 4000 120 @ contexto_depois]"
    by (simp add: 2)
  from A 0 1 have
    "snd (analisar_impugnacao lib_exemplo (Some (u ''sk-teste'')) (openai_exemplo (u ''{}''))
       dados_teste) = [pedido lib_exemplo dados_teste]"
    "user_content (pedido lib_exemplo dados_teste)
       = contexto_antes lib_exemplo dados_teste @ texto_impugnacao dados_teste
           @ contexto_depois"
    by blast+
  then have a1:
    "map user_content
       (snd (analisar_impugnacao lib_exemplo (Some (u ''sk-teste''))
          (openai_exemplo (u ''{}'')) dados_teste))
     = [contexto_antes lib_exemplo dados_teste @ texto_impugnacao dados_teste
          @ contexto_depois]"
    by simp
  from B 0 3 [of ?d] 4 have
    "fst (analisar_impugnacao lib_exemplo (Some (u ''sk-teste'')) (openai_exemplo (u ''{}''))
       ?d)
     = (case estruturar lib_exemplo (?d\<lparr>texto_impugnacao := []\<rparr>) (JObj []) of
          Inl e \<Rightarrow> Inl (tratar lib_exemplo e) | Inr r \<Rightarrow> Inr r)"
    by blast
  then have b3:
    "fst (analisar_impugnacao lib_exemplo (Some (u ''sk-teste'')) (openai_exemplo (u ''{}''))
       ?d)
     = Inr \<lparr>rf_processo_id = u ''TESTE-001'', status = NENHUM_ARGUMENTO_IDENTIFICADO,
            argumentos = [], resumo = resumo_sem_argumentos, confianca = Finite 0.1,
            alertas = [alerta_sem_argumentos]\<rparr>"
    by (simp add: 5)
  from B have
    "analisar_impugnacao lib_exemplo (Some (u ''sk-teste'')) (openai_exemplo (u ''{}'')) ?d
       = analisar_impugnacao lib_exemplo (Some (u ''sk-teste'')) (openai_exemplo (u ''{}''))
           (?d\<lparr>texto_impugnacao := take 4000 (texto_impugnacao ?d)\<rparr>)"
    by blast
  then have b4:
    "analisar_impugnacao lib_exemplo (Some (u ''sk-teste'')) (openai_exemplo (u ''{}'')) ?d
       = analisar_impugnacao lib_exemplo (Some (u ''sk-teste'')) (openai_exemplo (u ''{}''))
           (dados_teste\<lparr>texto_impugnacao := replicate 4000 120\<rparr>)"
    by simp
  from 0 1 b1 b2 a1 b3 b4 show ?thesis
    by blast
qed

text \<open>
  Claim C8. When the key is configured and the text of the reply is one on which
  \<open>json.loads\<close> raises \<open>JSONDecodeError\<close>, the endpoint fails with status 422, and the
  detail is the fixed prefix followed by the text of the decoder's exception.
\<close>

theorem invalid_json_is_422:
  assumes "\<not> sem_chave chave"
    and "openai (pedido L dados) = Choices (Some raw # cs)"
    and "loads L raw = Inl (JSONDecodeError diag)"
  shows "analisar_impugnacao L chave openai dados =
           (Inl \<lparr>status_code = 422, detail = prefixo_json @ diag\<rparr>, [pedido L dados])"
  using assms by (simp add: analisar_loads)

theorem invalid_json_is_422_witness:
  "\<not> sem_chave (Some (u ''sk-teste''))
   \<and> openai_exemplo (u ''Desculpe'') (pedido lib_exemplo dados_teste)
       = Choices [Some (u ''Desculpe'')]
   \<and> loads lib_exemplo (u ''Desculpe'')
       = Inl (JSONDecodeError (u ''Expecting value: line 1 column 1 (char 0)''))
   \<and> fst (analisar_impugnacao lib_exemplo (Some (u ''sk-teste''))
          (openai_exemplo (u ''Desculpe'')) dados_teste) =
       Inl \<lparr>status_code = 422,
            detail = prefixo_json @ u ''Expecting value: line 1 column 1 (char 0)''\<rparr>"
proof -
  have 1: "\<not> sem_chave (Some (u ''sk-teste''))"
    by (simp add: u_def)
  have 2: "openai_exemplo (u ''Desculpe'') (pedido lib_exemplo dados_teste)
             = Choices (Some (u ''Desculpe'') # [])"
    by (simp add: openai_exemplo_def)
  have 3: "loads lib_exemplo (u ''Desculpe'')
             = Inl (JSONDecodeError (u ''Expecting value: line 1 column 1 (char 0)''))"
    by (simp add: lib_exemplo_def loads_exemplo_def)
  from invalid_json_is_422 [where openai = "openai_exemplo (u ''Desculpe'')", OF 1 2 3] 1 2 3 show ?thesis
    by simp
qed

text \<open>
  Claim C9. When the key is missing, the \<open>HTTPException\<close> raised inside the \<open>try\<close> is taken
  by the last \<open>except\<close> clause: the caller receives status 500 with a detail that is the
  prefix \<open>Erro interno do servidor: \<close> followed by \<open>str(e)\<close> of that exception, and this
  detail is never the bare configuration message.
\<close>

theorem missing_credential_wrapped:
  assumes "sem_chave chave"
  shows "fst (analisar_impugnacao L chave openai dados) =
           Inl \<lparr>status_code = 500,
                detail = prefixo_interno
                  @ str_exc L (HTTPException \<lparr>status_code = 500, detail = msg_sem_chave\<rparr>)\<rparr>
       \<and> prefixo_interno
            @ str_exc L (HTTPException \<lparr>status_code = 500, detail = msg_sem_chave\<rparr>)
          \<noteq> msg_sem_chave"
proof -
  have "hd (prefixo_interno @ s) \<noteq> hd msg_sem_chave" for s
    by (simp add: prefixo_interno_def msg_sem_chave_def u_def)
  then have "prefixo_interno @ s \<noteq> msg_sem_chave" for s
    by metis
  with analisar_sem_chave [OF assms] show ?thesis by simp
qed

theorem missing_credential_wrapped_witness:
  "sem_chave None
   \<and> fst (analisar_impugnacao lib_exemplo None (openai_exemplo (u ''{}'')) dados_teste) =
       Inl \<lparr>status_code = 500,
            detail = u ''Erro interno do servidor: 500: API Key OpenAI n'' @ [227]
              @ u ''o configurada''\<rparr>"
proof -
  have 1: "sem_chave None"
    by simp
  from missing_credential_wrapped [OF 1, of lib_exemplo "openai_exemplo (u ''{}'')" dados_teste]
  show ?thesis
    by (simp add: lib_exemplo_def prefixo_interno_def msg_sem_chave_def u_def)
qed

text \<open>
  Claim C10. The empty branch is taken on truthiness: when the key is configured, the
  service replies, and the reply decodes to an object whose \<open>argumentos\<close> maps to any falsy
  value, the endpoint returns the \<open>NENHUM_ARGUMENTO_IDENTIFICADO\<close> result after one request.
  \<open>None\<close>, \<open>False\<close>, 0, the empty string and the empty list are all falsy.
\<close>

theorem falsy_arguments_result:
  assumes "\<not> sem_chave chave"
    and "openai (pedido L dados) = Choices (Some raw # cs)"
    and "loads L raw = Inr (JObj obj)"
    and "map_of obj (u ''argumentos'') = Some v"
    and "\<not> truthy v"
  shows "analisar_impugnacao L chave openai dados =
           (Inr \<lparr>rf_processo_id = processo_id dados, status = NENHUM_ARGUMENTO_IDENTIFICADO,
                 argumentos = [], resumo = resumo_sem_argumentos, confianca = Finite 0.1,
                 alertas = [alerta_sem_argumentos]\<rparr>, [pedido L dados])
       \<and> \<not> truthy JNull \<and> \<not> truthy (JBool False) \<and> \<not> truthy (JInt 0)
       \<and> \<not> truthy (JStr []) \<and> \<not> truthy (JArr [])"
proof -
  from assms(4,5)
  have "case map_of obj (u ''argumentos'') of None \<Rightarrow> True | Some v \<Rightarrow> \<not> truthy v"
    by simp
  from estruturar_falsy [OF this]
  have "estruturar L dados (JObj obj) = Inr (sem_argumentos dados)" .
  with analisar_estruturar [where openai = openai, OF assms(1-3)] show ?thesis
    by (simp add: sem_argumentos_def)
qed

theorem falsy_arguments_result_witness:
  "\<not> sem_chave (Some (u ''sk-teste''))
   \<and> \<not> truthy (JInt 0)
   \<and> fst (analisar_impugnacao
            (lib_exemplo\<lparr>loads := \<lambda>s. Inr (JObj [(u ''argumentos'', JInt 0)])\<rparr>)
            (Some (u ''sk-teste'')) (openai_exemplo (u ''{\"argumentos\": 0}'')) dados_teste) =
           Inr \<lparr>rf_processo_id = u ''TESTE-001'', status = NENHUM_ARGUMENTO_IDENTIFICADO,
                argumentos = [], resumo = resumo_sem_argumentos, confianca = Finite 0.1,
                alertas = [alerta_sem_argumentos]\<rparr>"
proof -
  let ?L = "lib_exemplo\<lparr>loads := \<lambda>s. Inr (JObj [(u ''argumentos'', JInt 0)])\<rparr>"
  let ?t = "u ''{\"argumentos\": 0}''"
  have 1: "\<not> sem_chave (Some (u ''sk-teste''))"
    by (simp add: u_def)
  have 2: "openai_exemplo ?t (pedido ?L dados_teste) = Choices (Some ?t # [])"
    by (simp add: openai_exemplo_def)
  have 3: "loads ?L ?t = Inr (JObj [(u ''argumentos'', JInt 0)])"
    by simp
  have 4: "map_of [(u ''argumentos'', JInt 0)] (u ''argumentos'') = Some (JInt 0)"
    by simp
  have 5: "\<not> truthy (JInt 0)"
    by simp
  from falsy_arguments_result [where openai = "openai_exemplo ?t", OF 1 2 3 4 5] 1
  show ?thesis
    by (simp add: dados_teste_def)
qed

end
